theory Spec2Isabelle
  imports Main "HOL-Library.Sublist"
begin

section \<open>Python values: exceptions, byte strings, text, paths\<close>

text \<open>
  The exceptions that the two modules raise, catch or let through.  A function of the
  source that may raise returns \<open>exn + 'a\<close>: \<open>Inl e\<close> is the exception \<open>e\<close> leaving the
  function, \<open>Inr v\<close> is \<open>return v\<close>.  \<open>RuntimeError msg cause\<close> carries the exception given
  after \<open>from\<close>.  \<open>OtherException\<close> stands for any further subclass of \<open>Exception\<close>.
  \<open>NotModelled\<close> is no exception of Python: it marks an input on which this theory does
  not say what Python does (see \<open>str_format\<close>).  \<open>print\<close> calls write to the console
  only and are left out.
\<close>

datatype exn =
    CalledProcessError
  | FileNotFoundError
  | UnicodeDecodeError
  | ExtensionError string
  | LinkcodeError string
  | RuntimeError string exn
  | KeyError string
  | AttributeError string
  | TypeError string
  | ValueError string
  | IndexError string
  | ModuleNotFoundError string
  | OSError string
  | OtherException string
  | NotModelled string

definition is_ExtensionError :: "exn \<Rightarrow> bool" where
  "is_ExtensionError e = (case e of ExtensionError msg \<Rightarrow> True | _ \<Rightarrow> False)"

definition bind_exn :: "exn + 'a \<Rightarrow> ('a \<Rightarrow> exn + 'b) \<Rightarrow> exn + 'b" where
  "bind_exn m f = (case m of Inl e \<Rightarrow> Inl e | Inr v \<Rightarrow> f v)"

text \<open>
  Truthiness of an optional string (\<open>if blob\<close>, \<open>if not value\<close>, \<open>if not uri\<close>):
  \<open>None\<close> and the empty string are falsy.
\<close>

definition truthy :: "string option \<Rightarrow> bool" where
  "truthy v = (case v of None \<Rightarrow> False | Some s \<Rightarrow> s \<noteq> [])"

subsection \<open>strip and split\<close>

text \<open>\<open>bytes.strip()\<close> removes ASCII whitespace from both ends.\<close>

definition bytes_isspace :: "char \<Rightarrow> bool" where
  "bytes_isspace c =
     (c = CHR '' '' \<or> c = CHR 0x09 \<or> c = CHR 0x0A \<or> c = CHR 0x0B \<or> c = CHR 0x0C \<or> c = CHR 0x0D)"

text \<open>\<open>str.split()\<close> separates at whitespace; on ASCII text that is the six characters
  above and the four separators 0x1C to 0x1F.\<close>

definition str_isspace :: "char \<Rightarrow> bool" where
  "str_isspace c =
     (bytes_isspace c \<or> c = CHR 0x1C \<or> c = CHR 0x1D \<or> c = CHR 0x1E \<or> c = CHR 0x1F)"

definition strip_with :: "(char \<Rightarrow> bool) \<Rightarrow> string \<Rightarrow> string" where
  "strip_with P s = rev (dropWhile P (rev (dropWhile P s)))"

definition bytes_strip :: "string \<Rightarrow> string" where
  "bytes_strip s = strip_with bytes_isspace s"

text \<open>\<open>s.strip(chars)\<close>: removes the characters of \<open>chars\<close> from both ends.\<close>

definition str_strip :: "string \<Rightarrow> string \<Rightarrow> string" where
  "str_strip chars s = strip_with (\<lambda>c. c \<in> set chars) s"

text \<open>Cutting a string at every character that satisfies \<open>P\<close>; empty pieces are kept.\<close>

fun split_where :: "(char \<Rightarrow> bool) \<Rightarrow> string \<Rightarrow> string list" where
  "split_where P [] = [[]]"
| "split_where P (c # cs) =
     (if P c then [] # split_where P cs
      else (case split_where P cs of
              [] \<Rightarrow> [[c]]
            | w # ws \<Rightarrow> (c # w) # ws))"

text \<open>\<open>s.split(sep)\<close> for a one-character separator, and \<open>s.split()\<close>, which
  cuts at runs of whitespace and drops the empty pieces.\<close>

definition str_split :: "char \<Rightarrow> string \<Rightarrow> string list" where
  "str_split sep s = split_where (\<lambda>c. c = sep) s"

definition str_split_ws :: "string \<Rightarrow> string list" where
  "str_split_ws s = filter (\<lambda>w. w \<noteq> []) (split_where str_isspace s)"

subsection \<open>decode('utf-8')\<close>

text \<open>
  Text is kept as its UTF-8 bytes, so decoding a byte string checks that it is
  well-formed UTF-8 (no overlong form, no surrogate, nothing above U+10FFFF) and returns
  it unchanged, or raises \<open>UnicodeDecodeError\<close>.
\<close>

definition utf8_cont :: "nat \<Rightarrow> bool" where
  "utf8_cont b = (0x80 \<le> b \<and> b \<le> 0xBF)"

fun utf8_valid :: "nat list \<Rightarrow> bool" where
  "utf8_valid [] = True"
| "utf8_valid (b # bs) =
     (if b < 0x80 then utf8_valid bs
      else if 0xC2 \<le> b \<and> b \<le> 0xDF then
        (case bs of c1 # r \<Rightarrow> utf8_cont c1 \<and> utf8_valid r | _ \<Rightarrow> False)
      else if 0xE0 \<le> b \<and> b \<le> 0xEF then
        (case bs of c1 # c2 # r \<Rightarrow>
           (if b = 0xE0 then 0xA0 \<le> c1 \<and> c1 \<le> 0xBF
            else if b = 0xED then 0x80 \<le> c1 \<and> c1 \<le> 0x9F
            else utf8_cont c1) \<and> utf8_cont c2 \<and> utf8_valid r
         | _ \<Rightarrow> False)
      else if 0xF0 \<le> b \<and> b \<le> 0xF4 then
        (case bs of c1 # c2 # c3 # r \<Rightarrow>
           (if b = 0xF0 then 0x90 \<le> c1 \<and> c1 \<le> 0xBF
            else if b = 0xF4 then 0x80 \<le> c1 \<and> c1 \<le> 0x8F
            else utf8_cont c1) \<and> utf8_cont c2 \<and> utf8_cont c3 \<and> utf8_valid r
         | _ \<Rightarrow> False)
      else False)"

definition decode_utf8 :: "string \<Rightarrow> exn + string" where
  "decode_utf8 bs = (if utf8_valid (map of_char bs) then Inr bs else Inl UnicodeDecodeError)"

subsection \<open>pathlib paths\<close>

text \<open>
  A \<open>Path\<close> is the list of its parts, as \<open>PurePosixPath.parts\<close> gives them: the root
  (\<open>/\<close>, or \<open>//\<close> for exactly two leading slashes) when the text starts with a slash,
  then the components between slashes, without the empty ones and the \<open>.\<close> ones.
\<close>

type_synonym path = "string list"

definition Path :: "string \<Rightarrow> path" where
  "Path s =
     (let lead = length (takeWhile (\<lambda>c. c = CHR ''/'') s);
          root = (if lead = 0 then [] else if lead = 2 then [''//''] else [''/''])
      in root @ filter (\<lambda>p. p \<noteq> [] \<and> p \<noteq> ''.'') (str_split (CHR ''/'') s))"

definition is_absolute :: "path \<Rightarrow> bool" where
  "is_absolute p = (case p of [] \<Rightarrow> False | r # rest \<Rightarrow> r = ''/'' \<or> r = ''//'')"

text \<open>
  \<open>p.relative_to(other)\<close>: the parts of \<open>p\<close> after those of \<open>other\<close>, when \<open>other\<close> is
  \<open>p\<close> or one of its parents; \<open>ValueError\<close> otherwise.  The empty relative path is a
  parent of relative paths only.
\<close>

definition relative_to :: "path \<Rightarrow> path \<Rightarrow> exn + path" where
  "relative_to p other =
     (if (if other = [] then \<not> is_absolute p else prefix other p)
      then Inr (drop (length other) p)
      else Inl (ValueError ''is not in the subpath of''))"

fun join_with :: "string \<Rightarrow> string list \<Rightarrow> string" where
  "join_with sep [] = []"
| "join_with sep [w] = w"
| "join_with sep (w # v # ws) = w @ sep @ join_with sep (v # ws)"

text \<open>\<open>p.as_posix()\<close>: the parts joined with forward slashes; the empty path is \<open>.\<close>.\<close>

definition as_posix :: "path \<Rightarrow> string" where
  "as_posix p =
     (case p of
        [] \<Rightarrow> ''.''
      | r # rest \<Rightarrow>
          if r = ''/'' \<or> r = ''//'' then r @ join_with ''/'' rest
          else join_with ''/'' (r # rest))"

section \<open>The version control system\<close>

text \<open>
  \<open>subprocess.check_output(argv)\<close> is a parameter: it maps the argument vector to the
  bytes the process wrote, or to the exception raised (\<open>CalledProcessError\<close> for a
  non-zero exit status, something else when the program cannot be started).
\<close>

type_synonym vcs = "string list \<Rightarrow> exn + string"

text \<open>\<open>check_output(argv).strip().decode('utf-8')\<close>\<close>

definition check_output_text :: "vcs \<Rightarrow> string list \<Rightarrow> exn + string" where
  "check_output_text git argv = bind_exn (git argv) (\<lambda>out. decode_utf8 (bytes_strip out))"

definition get_head :: "vcs \<Rightarrow> exn + string" where
  "get_head git =
     (case check_output_text git (str_split_ws ''git log -n1 --pretty=%H'') of
        Inr head \<Rightarrow>
          (case check_output_text git
                  (str_split (CHR '' '') (''git describe --exact-match --tags '' @ head)) of
             Inr tag \<Rightarrow> Inr tag
           | Inl CalledProcessError \<Rightarrow> Inr head
           | Inl e \<Rightarrow> Inl e)
      | Inl CalledProcessError \<Rightarrow> Inr ''master''
      | Inl e \<Rightarrow> Inl e)"

definition get_last_tag :: "vcs \<Rightarrow> exn + string" where
  "get_last_tag git =
     (case check_output_text git (str_split (CHR '' '') ''git describe --tags --abbrev=0'') of
        Inr tag \<Rightarrow> Inr tag
      | Inl CalledProcessError \<Rightarrow>
          Inl (ExtensionError ''``sphinx-github-style``: no tags found on current branch'')
      | Inl e \<Rightarrow> Inl e)"

definition get_linkcode_revision :: "vcs \<Rightarrow> string \<Rightarrow> exn + string" where
  "get_linkcode_revision git blob =
     (if blob = ''head'' then get_head git
      else if blob = ''last_tag'' then get_last_tag git
      else Inr blob)"

definition get_repo_dir :: "vcs \<Rightarrow> exn + path" where
  "get_repo_dir git =
     (case check_output_text git (str_split (CHR '' '') ''git rev-parse --show-toplevel'') of
        Inr text \<Rightarrow> Inr (Path text)
      | Inl CalledProcessError \<Rightarrow>
          Inl (RuntimeError ''Unable to determine the repository directory'' CalledProcessError)
      | Inl e \<Rightarrow> Inl e)"

section \<open>The URL template\<close>

text \<open>
  \<open>get_linkcode_url(blob, context, url)\<close>.  \<open>context\<close> is the \<open>html_context\<close>
  dictionary (\<open>None\<close> when the argument is left out); \<open>context.get(key)\<close> on \<open>None\<close>
  raises \<open>AttributeError\<close>.  The base URL comes first, then the blob
  (\<open>linkcode_blob\<close> is the right-hand side of the assignment to \<open>blob\<close>), then the
  template.
\<close>

definition missing_url :: exn where
  "missing_url = ExtensionError ''sphinx-github-style: config value ``linkcode_url`` is missing''"

definition missing_blob :: exn where
  "missing_blob =
     ExtensionError ''sphinx-github-style: must provide a blob or GitHub version to link to''"

definition context_get :: "(string \<rightharpoonup> string) option \<Rightarrow> string \<Rightarrow> exn + string option" where
  "context_get context key =
     (case context of
        None \<Rightarrow> Inl (AttributeError ''get'')
      | Some ctx \<Rightarrow> Inr (ctx key))"

definition linkcode_blob ::
  "vcs \<Rightarrow> string option \<Rightarrow> (string \<rightharpoonup> string) option \<Rightarrow> exn + string option" where
  "linkcode_blob git blob context =
     (case blob of
        None \<Rightarrow> context_get context ''github_version''
      | Some b \<Rightarrow>
          if b = [] then context_get context ''github_version''
          else bind_exn (get_linkcode_revision git b) (\<lambda>r. Inr (Some r)))"

definition get_linkcode_url ::
  "vcs \<Rightarrow> string option \<Rightarrow> (string \<rightharpoonup> string) option \<Rightarrow> string option \<Rightarrow> exn + string" where
  "get_linkcode_url git blob context url =
     bind_exn
       (case url of
          Some u \<Rightarrow> Inr u
        | None \<Rightarrow>
            (case context of
               None \<Rightarrow> Inl missing_url
             | Some ctx \<Rightarrow>
                 if \<not> (truthy (ctx ''github_user'') \<and> truthy (ctx ''github_repo''))
                 then Inl missing_url
                 else
                   (case (ctx ''github_user'', ctx ''github_repo'') of
                      (Some user, Some repo) \<Rightarrow> Inr (''https://github.com/'' @ user @ ''/'' @ repo)
                    | _ \<Rightarrow> Inl (KeyError ''github_user''))))
       (\<lambda>url.
          bind_exn (linkcode_blob git blob context)
            (\<lambda>blob.
               case blob of
                 Some b \<Rightarrow>
                   Inr ((str_strip ''/'' url @ ''/blob/'' @ b @ ''/'')
                        @ ''{filepath}#L{linestart}-L{linestop}'')
               | None \<Rightarrow> Inl missing_blob))"

text \<open>How often a text occurs in a string (at how many positions it starts).\<close>

fun count_sub :: "string \<Rightarrow> string \<Rightarrow> nat" where
  "count_sub p [] = (if p = [] then 1 else 0)"
| "count_sub p (c # cs) = (if prefix p (c # cs) then 1 else 0) + count_sub p cs"

text \<open>The shape that the specification gives for the template: only the slashes at the
  end of the base URL are removed.\<close>

definition spec_template :: "string \<Rightarrow> string \<Rightarrow> string" where
  "spec_template base r =
     rev (dropWhile (\<lambda>c. c = CHR ''/'') (rev base)) @ ''/blob/'' @ r @ ''/''
       @ ''{filepath}#L{linestart}-L{linestop}''"

section \<open>str.format with keyword arguments\<close>

text \<open>
  \<open>template.format(**kw)\<close>, read from left to right: \<open>{{\<close> and \<open>}}\<close> are literal
  braces, \<open>{name}\<close> is replaced by \<open>kw[name]\<close>, a lone brace is a \<open>ValueError\<close>.  A
  field whose name is empty or a number asks for a positional argument, and there is
  none.  A field with an attribute, an index, a conversion or a format specification
  (\<open>.\<close>, \<open>[\<close>, \<open>!\<close>, \<open>:\<close>) is outside this model and gives \<open>NotModelled\<close>; the
  templates of this extension have none.
\<close>

definition is_digit :: "char \<Rightarrow> bool" where
  "is_digit c = (c \<in> set ''0123456789'')"

definition digits_value :: "string \<Rightarrow> nat" where
  "digits_value ds = foldl (\<lambda>acc c. 10 * acc + (of_char c - 48)) 0 ds"

definition lookup_field :: "(string \<rightharpoonup> string) \<Rightarrow> string \<Rightarrow> exn + string" where
  "lookup_field kw name =
     (if \<exists>c \<in> set name. c \<in> set ''.[!:'' then Inl (NotModelled ''replacement field'')
      else if name = [] then
        Inl (IndexError ''Replacement index 0 out of range for positional args tuple'')
      else if list_all is_digit name then
        (if digits_value name > 2 ^ 63 - 1
         then Inl (ValueError ''Too many decimal digits in format string'')
         else Inl (IndexError ''Replacement index out of range for positional args tuple''))
      else (case kw name of
              None \<Rightarrow> Inl (KeyError name)
            | Some v \<Rightarrow> Inr v))"

fun format_text :: "(string \<rightharpoonup> string) \<Rightarrow> string \<Rightarrow> exn + string"
  and format_field :: "(string \<rightharpoonup> string) \<Rightarrow> string \<Rightarrow> string \<Rightarrow> exn + string" where
  "format_text kw [] = Inr []"
| "format_text kw (c # cs) =
     (if c = CHR ''{'' then
        (case cs of
           [] \<Rightarrow> Inl (ValueError ''Single { encountered in format string'')
         | d # ds \<Rightarrow>
             if d = CHR ''{'' then bind_exn (format_text kw ds) (\<lambda>r. Inr (CHR ''{'' # r))
             else format_field kw [] cs)
      else if c = CHR ''}'' then
        (case cs of
           [] \<Rightarrow> Inl (ValueError ''Single } encountered in format string'')
         | d # ds \<Rightarrow>
             if d = CHR ''}'' then bind_exn (format_text kw ds) (\<lambda>r. Inr (CHR ''}'' # r))
             else Inl (ValueError ''Single } encountered in format string''))
      else bind_exn (format_text kw cs) (\<lambda>r. Inr (c # r)))"
| "format_field kw name [] = Inl (ValueError ''expected } before end of string'')"
| "format_field kw name (c # cs) =
     (if c = CHR ''}'' then
        bind_exn (lookup_field kw name) (\<lambda>v. bind_exn (format_text kw cs) (\<lambda>r. Inr (v @ r)))
      else if c = CHR ''{'' \<and> (\<forall>x \<in> set name. x \<notin> set ''[!:'')
        then Inl (ValueError ''unexpected { in field name'')
      else format_field kw (name @ [c]) cs)"

definition str_format :: "string \<Rightarrow> (string \<rightharpoonup> string) \<Rightarrow> exn + string" where
  "str_format template kw = format_text kw template"

text \<open>\<open>str(n)\<close> for an integer, which is what \<open>format\<close> puts in a field.\<close>

fun str_nat :: "nat \<Rightarrow> string" where
  "str_nat n =
     (if n < 10 then [''0123456789'' ! n]
      else str_nat (n div 10) @ [''0123456789'' ! (n mod 10)])"

declare str_nat.simps [simp del]

definition str_int :: "int \<Rightarrow> string" where
  "str_int i = (if i < 0 then CHR ''-'' # str_nat (nat (- i)) else str_nat (nat i))"

section \<open>The default linkcode_resolve\<close>

text \<open>
  The loaded program is a parameter.  Its objects have some type \<open>'o\<close>, and the record
  holds what the interpreter and \<open>inspect\<close> answer about them:
  \<^item> \<open>sys_modules\<close>: \<open>sys.modules.get(name)\<close>;
  \<^item> \<open>getattr\<close>: the attribute, or the exception the access raises;
  \<^item> \<open>property_fget obj = Some g\<close> when \<open>obj\<close> is a \<open>property\<close> and \<open>obj.fget\<close> is \<open>g\<close>;
  \<^item> \<open>cached_property_func obj = Some f\<close> when \<open>obj\<close> is a \<open>cached_property\<close> with
    \<open>obj.func\<close> being \<open>f\<close>;
  \<^item> \<open>unwrap\<close>, \<open>getsourcefile\<close>, \<open>getsourcelines\<close>: the functions of \<open>inspect\<close>;
    \<open>getsourcefile\<close> may return \<open>None\<close>, and \<open>getsourcelines\<close> returns the source
    lines with the number of the first one.
\<close>

record 'o program =
  sys_modules :: "string \<rightharpoonup> 'o"
  getattr :: "'o \<Rightarrow> string \<Rightarrow> exn + 'o"
  property_fget :: "'o \<Rightarrow> 'o option"
  cached_property_func :: "'o \<Rightarrow> 'o option"
  unwrap :: "'o \<Rightarrow> exn + 'o"
  getsourcefile :: "'o \<Rightarrow> exn + string option"
  getsourcelines :: "'o \<Rightarrow> exn + (string list \<times> int)"

text \<open>
  The loop over \<open>fullname.split('.')\<close>.  \<open>Inr None\<close> is the \<open>return None\<close> in the
  handler of \<open>AttributeError\<close>; any other exception leaves the function.
\<close>

fun resolve_parts :: "'o program \<Rightarrow> 'o \<Rightarrow> string list \<Rightarrow> exn + 'o option" where
  "resolve_parts env obj [] = Inr (Some obj)"
| "resolve_parts env obj (part # parts) =
     (case getattr env obj part of
        Inr v \<Rightarrow> resolve_parts env v parts
      | Inl (AttributeError msg) \<Rightarrow> Inr None
      | Inl e \<Rightarrow> Inl e)"

text \<open>The \<open>isinstance(obj, property)\<close> / \<open>cached_property\<close> step.\<close>

definition accessor_target :: "'o program \<Rightarrow> 'o \<Rightarrow> 'o" where
  "accessor_target env obj =
     (case property_fget env obj of
        Some g \<Rightarrow> g
      | None \<Rightarrow>
          (case cached_property_func env obj of
             Some f \<Rightarrow> f
           | None \<Rightarrow> obj))"

text \<open>The first \<open>try\<close> block: \<open>Path(inspect.getsourcefile(inspect.unwrap(obj)))
  .relative_to(repo_dir)\<close>; \<open>Path(None)\<close> is a \<open>TypeError\<close>.\<close>

definition source_filepath :: "'o program \<Rightarrow> path \<Rightarrow> 'o \<Rightarrow> exn + path" where
  "source_filepath env repo_dir obj =
     bind_exn (unwrap env obj) (\<lambda>u.
     bind_exn (getsourcefile env u) (\<lambda>modpath.
       case modpath of
         None \<Rightarrow> Inl (TypeError ''expected str, bytes or os.PathLike object, not NoneType'')
       | Some file \<Rightarrow> relative_to (Path file) repo_dir))"

definition link_fields :: "path \<Rightarrow> int \<Rightarrow> int \<Rightarrow> (string \<rightharpoonup> string)" where
  "link_fields filepath linestart linestop =
     [''filepath'' \<mapsto> as_posix filepath,
      ''linestart'' \<mapsto> str_int linestart,
      ''linestop'' \<mapsto> str_int linestop]"

text \<open>
  \<open>get_linkcode_resolve(linkcode_url, repo_dir)\<close> returns the closure
  \<open>linkcode_resolve(domain, info)\<close>; here the closure's variables are the first
  arguments.  \<open>info\<close> is the dictionary of the qualifier fields, \<open>Inr None\<close> is "no link".
  Both handlers of \<open>Exception\<close> catch every exception of \<open>exn\<close>.
\<close>

definition linkcode_resolve ::
  "'o program \<Rightarrow> string \<Rightarrow> path \<Rightarrow> string option \<Rightarrow> (string \<rightharpoonup> string) \<Rightarrow> exn + string option" where
  "linkcode_resolve env linkcode_url repo_dir domain info =
     (if domain \<noteq> Some ''py'' then Inr None
      else
        (case info ''module'' of
           None \<Rightarrow> Inl (KeyError ''module'')
         | Some modname \<Rightarrow>
             if modname = [] then Inr None
             else
               (case info ''fullname'' of
                  None \<Rightarrow> Inl (KeyError ''fullname'')
                | Some fullname \<Rightarrow>
                    (case sys_modules env modname of
                       None \<Rightarrow> Inr None
                     | Some submod \<Rightarrow>
                         (case resolve_parts env submod (str_split (CHR ''.'') fullname) of
                            Inl e \<Rightarrow> Inl e
                          | Inr None \<Rightarrow> Inr None
                          | Inr (Some found) \<Rightarrow>
                              (let obj = accessor_target env found in
                               case source_filepath env repo_dir obj of
                                 Inl e \<Rightarrow> Inr None
                               | Inr filepath \<Rightarrow>
                                   (case getsourcelines env obj of
                                      Inl e \<Rightarrow> Inr None
                                    | Inr (source, lineno) \<Rightarrow>
                                        bind_exn
                                          (str_format linkcode_url
                                             (link_fields filepath lineno
                                                (lineno + int (length source) - 1)))
                                          (\<lambda>final_link. Inr (Some final_link)))))))))"

text \<open>\<open>get_linkcode_resolve\<close>: without a \<open>repo_dir\<close> the repository is asked for it.\<close>

definition get_linkcode_resolve ::
  "vcs \<Rightarrow> 'o program \<Rightarrow> string \<Rightarrow> path option \<Rightarrow>
     exn + (string option \<Rightarrow> (string \<rightharpoonup> string) \<Rightarrow> exn + string option)" where
  "get_linkcode_resolve git env linkcode_url repo_dir =
     bind_exn (case repo_dir of None \<Rightarrow> get_repo_dir git | Some d \<Rightarrow> Inr d)
       (\<lambda>d. Inr (linkcode_resolve env linkcode_url d))"

section \<open>The annotator: doctree_read\<close>

text \<open>
  \<open>doctree.findall(addnodes.desc)\<close> is given as the list of the \<open>desc\<close> nodes of the
  document.  Of a \<open>desc\<close> node the loop reads the \<open>domain\<close> attribute and the direct
  children; of a child it tests whether it is a \<open>desc_signature\<close>, reads its
  attributes and appends a \<open>reference\<close> node to its own children.  A \<open>reference\<close>
  node is given by its \<open>refuri\<close>: it is always the same inline \<open>[source]\<close> with the class
  \<open>viewcode-link\<close>.  The children of a node belong to that node alone (a tree), so the
  change to one \<open>desc\<close> node is not seen through another.
\<close>

datatype element = reference string | other_element

datatype child = desc_signature "(string \<times> string) list" "element list" | not_signature

record objnode =
  domain :: "string option"
  children :: "child list"

type_synonym resolver = "string option \<Rightarrow> (string \<times> string) list \<Rightarrow> exn + string option"

definition domain_keys :: "string option \<Rightarrow> string list" where
  "domain_keys d =
     (if d = Some ''py'' then [''module'', ''fullname'']
      else if d = Some ''c'' then [''names'']
      else if d = Some ''cpp'' then [''names'']
      else if d = Some ''js'' then [''object'', ''fullname'']
      else [])"

text \<open>The dictionary \<open>info\<close>, in the order of its keys: a missing or falsy attribute
  becomes the empty string.\<close>

definition signode_info :: "string option \<Rightarrow> (string \<times> string) list \<Rightarrow> (string \<times> string) list" where
  "signode_info d attrs =
     map (\<lambda>key. (key, (case map_of attrs key of None \<Rightarrow> [] | Some value \<Rightarrow> value)))
       (domain_keys d)"

text \<open>
  The loop over the children of one \<open>desc\<close> node, with the set \<open>uris\<close> as its state.
  The result is the children after the loop and the exception, if the resolver raised
  one (the children before it keep their links, the others are untouched).
\<close>

fun objnode_loop ::
  "resolver \<Rightarrow> string option \<Rightarrow> string set \<Rightarrow> child list \<Rightarrow> child list \<times> exn option" where
  "objnode_loop resolve_target d uris [] = ([], None)"
| "objnode_loop resolve_target d uris (not_signature # rest) =
     (case objnode_loop resolve_target d uris rest of
        (rest', e) \<Rightarrow> (not_signature # rest', e))"
| "objnode_loop resolve_target d uris (desc_signature attrs kids # rest) =
     (let info = signode_info d attrs
      in if info = [] then
           (case objnode_loop resolve_target d uris rest of
              (rest', e) \<Rightarrow> (desc_signature attrs kids # rest', e))
         else
           (case resolve_target d info of
              Inl e \<Rightarrow> (desc_signature attrs kids # rest, Some e)
            | Inr None \<Rightarrow>
                (case objnode_loop resolve_target d uris rest of
                   (rest', e) \<Rightarrow> (desc_signature attrs kids # rest', e))
            | Inr (Some uri) \<Rightarrow>
                if uri = [] then
                  (case objnode_loop resolve_target d uris rest of
                     (rest', e) \<Rightarrow> (desc_signature attrs kids # rest', e))
                else if uri \<in> uris \<or> uri = [] then
                  (case objnode_loop resolve_target d uris rest of
                     (rest', e) \<Rightarrow> (desc_signature attrs kids # rest', e))
                else
                  (case objnode_loop resolve_target d (insert uri uris) rest of
                     (rest', e) \<Rightarrow> (desc_signature attrs (kids @ [reference uri]) # rest', e))))"

text \<open>The outer loop: every \<open>desc\<close> node starts with an empty set \<open>uris\<close>.\<close>

fun doctree_loop :: "resolver \<Rightarrow> objnode list \<Rightarrow> objnode list \<times> exn option" where
  "doctree_loop resolve_target [] = ([], None)"
| "doctree_loop resolve_target (n # ns) =
     (case objnode_loop resolve_target (domain n) {} (children n) of
        (cs, Some e) \<Rightarrow> (n\<lparr>children := cs\<rparr> # ns, Some e)
      | (cs, None) \<Rightarrow>
          (case doctree_loop resolve_target ns of
             (ns', e) \<Rightarrow> (n\<lparr>children := cs\<rparr> # ns', e)))"

text \<open>\<open>doctree_read\<close>: the configured \<open>linkcode_resolve\<close> is \<open>None\<close> when it is not
  callable.\<close>

definition doctree_read :: "resolver option \<Rightarrow> objnode list \<Rightarrow> objnode list \<times> exn option" where
  "doctree_read linkcode_resolve_conf doctree =
     (case linkcode_resolve_conf of
        None \<Rightarrow>
          (doctree, Some (LinkcodeError ''Function `linkcode_resolve` is not given in conf.py''))
      | Some resolve_target \<Rightarrow> doctree_loop resolve_target doctree)"

text \<open>
  The links that the loop attached to a node: the \<open>refuri\<close> of every \<open>reference\<close> that a
  child has after the loop beyond the children it had before.
\<close>

fun refuris :: "element list \<Rightarrow> string list" where
  "refuris [] = []"
| "refuris (reference uri # es) = uri # refuris es"
| "refuris (other_element # es) = refuris es"

fun attached_links :: "child list \<Rightarrow> child list \<Rightarrow> string list" where
  "attached_links (desc_signature a kids # cs) (desc_signature a' kids' # cs') =
     refuris (drop (length kids) kids') @ attached_links cs cs'"
| "attached_links (c # cs) (c' # cs') = attached_links cs cs'"
| "attached_links cs cs' = []"

section \<open>The method lexer\<close>

text \<open>
  What \<open>inspect\<close> answers about the objects of the package: \<open>members obj\<close> is
  \<open>getmembers(obj)\<close>, the pairs of a name and its value in the order of the names, and
  the four predicates are those of \<open>inspect\<close>.
\<close>

record 'o inspection =
  members :: "'o \<Rightarrow> (string \<times> 'o) list"
  isfunction :: "'o \<Rightarrow> bool"
  ismethod :: "'o \<Rightarrow> bool"
  ismodule :: "'o \<Rightarrow> bool"
  isclass :: "'o \<Rightarrow> bool"

definition getmembers :: "'o inspection \<Rightarrow> 'o \<Rightarrow> ('o \<Rightarrow> bool) \<Rightarrow> (string \<times> 'o) list" where
  "getmembers insp obj predicate = filter (\<lambda>(name, v). predicate v) (members insp obj)"

text \<open>
  \<open>isfunction or ismethod\<close> is an expression over two function objects, not over their
  results: \<open>x or y\<close> is \<open>x\<close> when \<open>x\<close> is truthy, and a function object is truthy.
\<close>

definition or_objects :: "('o \<Rightarrow> bool) \<Rightarrow> ('o \<Rightarrow> bool) \<Rightarrow> ('o \<Rightarrow> bool)" where
  "or_objects x y = x"

text \<open>\<open>list(dict(pairs))\<close>: the keys, each once, in the order of their first
  occurrence.\<close>

fun dict_keys :: "(string \<times> 'o) list \<Rightarrow> string list" where
  "dict_keys [] = []"
| "dict_keys ((k, v) # kvs) = k # filter (\<lambda>k'. k' \<noteq> k) (dict_keys kvs)"

definition get_funcs :: "'o inspection \<Rightarrow> 'o \<Rightarrow> string list" where
  "get_funcs insp of_obj =
     dict_keys (getmembers insp of_obj (or_objects (isfunction insp) (ismethod insp)))"

definition get_pkg_funcs :: "'o inspection \<Rightarrow> 'o \<Rightarrow> string set" where
  "get_pkg_funcs insp pkg =
     set (foldl
            (\<lambda>funcs_meths (name, module).
               foldl (\<lambda>funcs_meths (class_name, class). funcs_meths @ get_funcs insp class)
                 (funcs_meths @ get_funcs insp module)
                 (getmembers insp module (isclass insp)))
            (get_funcs insp pkg)
            (getmembers insp pkg (ismodule insp)))"

text \<open>The lexer class, reduced to its \<open>EXTRA_KEYWORDS\<close>; \<open>import_pkg\<close> is
  \<open>__import__\<close>.\<close>

record lexer =
  EXTRA_KEYWORDS :: "string set"

definition get_pkg_lexer ::
  "'o inspection \<Rightarrow> (string \<rightharpoonup> 'o) \<Rightarrow> lexer \<Rightarrow> string \<Rightarrow> exn + lexer" where
  "get_pkg_lexer insp import_pkg cls pkg_name =
     (case import_pkg pkg_name of
        None \<Rightarrow> Inl (ModuleNotFoundError pkg_name)
      | Some pkg \<Rightarrow> Inr (cls\<lparr>EXTRA_KEYWORDS := get_pkg_funcs insp pkg\<rparr>))"

section \<open>Predicates of the statements and example inputs\<close>

definition brace_free :: "string \<Rightarrow> bool" where
  "brace_free s = (CHR ''{'' \<notin> set s \<and> CHR ''}'' \<notin> set s)"

definition slot_free :: "string \<Rightarrow> bool" where
  "slot_free s =
     (count_sub ''{filepath}'' s = 0 \<and> count_sub ''{linestart}'' s = 0
      \<and> count_sub ''{linestop}'' s = 0)"

text \<open>The invariant of the loop over the children of a \<open>desc\<close> node: the links
  attached so far are pairwise different, not empty, and none of them is in the set
  \<open>uris\<close> the loop started with.\<close>

definition links_ok :: "string set \<Rightarrow> child list \<Rightarrow> child list \<Rightarrow> bool" where
  "links_ok uris cs cs' \<longleftrightarrow>
     length cs' = length cs
     \<and> distinct (attached_links cs cs')
     \<and> set (attached_links cs cs') \<inter> uris = {}
     \<and> [] \<notin> set (attached_links cs cs')"

text \<open>Repositories: one whose last commit carries the tag \<open>v1.0\<close>, one whose last commit
  has no tag, and a directory that is no repository (every call exits with an error).\<close>

definition git_tagged :: vcs where
  "git_tagged argv =
     (if argv = [''git'', ''log'', ''-n1'', ''--pretty=%H'']
      then Inr ''9fceb02d0ae598e95dc970b74767f19372d61af8\<newline>''
      else if argv = [''git'', ''describe'', ''--exact-match'', ''--tags'',
                      ''9fceb02d0ae598e95dc970b74767f19372d61af8'']
      then Inr ''v1.0\<newline>''
      else if argv = [''git'', ''rev-parse'', ''--show-toplevel'']
      then Inr ''/home/user/repo\<newline>''
      else Inl CalledProcessError)"

definition git_untagged :: vcs where
  "git_untagged argv =
     (if argv = [''git'', ''log'', ''-n1'', ''--pretty=%H'']
      then Inr ''9fceb02d0ae598e95dc970b74767f19372d61af8\<newline>''
      else Inl CalledProcessError)"

definition git_no_repository :: vcs where
  "git_no_repository argv = Inl CalledProcessError"

text \<open>
  A loaded program, its objects named by their qualified names: the module \<open>pkg.mod\<close>
  of the repository with the class \<open>ClassName\<close> and its method \<open>method_name\<close> at lines
  10 to 15 of \<open>pkg/mod.py\<close>; the builtin \<open>len\<close>, which has no source file; \<open>Path\<close>,
  imported from the standard library; and \<open>made\<close>, whose source lines cannot be read.
\<close>

definition example_getattr :: "string \<Rightarrow> string \<Rightarrow> exn + string" where
  "example_getattr obj part =
     (if obj = ''pkg.mod'' \<and> part \<in> set [''ClassName'', ''len'', ''Path'', ''made'']
        then Inr (obj @ ''.'' @ part)
      else if obj = ''pkg.mod.ClassName'' \<and> part = ''method_name'' then Inr (obj @ ''.'' @ part)
      else Inl (AttributeError part))"

definition example_getsourcefile :: "string \<Rightarrow> exn + string option" where
  "example_getsourcefile obj =
     (if obj = ''pkg.mod.len'' then Inl (TypeError ''built-in function'')
      else if obj = ''pkg.mod.Path'' then Inr (Some ''/usr/lib/python3.11/pathlib.py'')
      else Inr (Some ''/home/user/repo/pkg/mod.py''))"

definition example_getsourcelines :: "string \<Rightarrow> exn + (string list \<times> int)" where
  "example_getsourcelines obj =
     (if obj = ''pkg.mod.ClassName.method_name'' then Inr (replicate 6 ''pass'', 10)
      else Inl (OSError ''could not get source code''))"

definition example_program :: "string program" where
  "example_program =
     \<lparr>sys_modules = [''pkg.mod'' \<mapsto> ''pkg.mod''],
      getattr = example_getattr,
      property_fget = (\<lambda>obj. None),
      cached_property_func = (\<lambda>obj. None),
      unwrap = Inr,
      getsourcefile = example_getsourcefile,
      getsourcelines = example_getsourcelines\<rparr>"

definition example_template :: string where
  "example_template = ''https://github.com/u/r/blob/v1.0/{filepath}#L{linestart}-L{linestop}''"

text \<open>A resolver for the annotator: the link is the \<open>module\<close> field itself.\<close>

definition example_resolver :: resolver where
  "example_resolver d info = Inr (map_of info ''module'')"

definition example_objnode :: "child list" where
  "example_objnode =
     [desc_signature [(''module'', ''a'')] [],
      not_signature,
      desc_signature [(''module'', ''a'')] [other_element],
      desc_signature [] [],
      desc_signature [(''module'', ''b'')] []]"

text \<open>
  A package for the lexer: \<open>shop\<close> with the module \<open>shop.models\<close>, which defines the
  function \<open>load\<close> and the class \<open>Model\<close> with the method \<open>save\<close> and the class method
  \<open>from_json\<close>.  Read from the class, \<open>save\<close> is a function and \<open>from_json\<close> is a bound
  method.
\<close>

datatype pyobj =
    py_function
  | py_bound_method
  | py_class "(string \<times> pyobj) list"
  | py_module "(string \<times> pyobj) list"
  | py_value

definition example_inspection :: "pyobj inspection" where
  "example_inspection =
     \<lparr>members = (\<lambda>obj. case obj of py_class ms \<Rightarrow> ms | py_module ms \<Rightarrow> ms | _ \<Rightarrow> []),
      isfunction = (\<lambda>obj. obj = py_function),
      ismethod = (\<lambda>obj. obj = py_bound_method),
      ismodule = (\<lambda>obj. case obj of py_module ms \<Rightarrow> True | _ \<Rightarrow> False),
      isclass = (\<lambda>obj. case obj of py_class ms \<Rightarrow> True | _ \<Rightarrow> False)\<rparr>"

definition example_pkg :: pyobj where
  "example_pkg =
     py_module
       [(''models'',
         py_module
           [(''Model'', py_class [(''from_json'', py_bound_method), (''save'', py_function)]),
            (''load'', py_function)])]"

section \<open>The revision and the repository directory\<close>

text \<open>The argument vectors of the four calls, and the examples' answers to them.\<close>

lemma log_argv:
  "str_split_ws ''git log -n1 --pretty=%H'' = [''git'', ''log'', ''-n1'', ''--pretty=%H'']"
  by (simp add: str_split_ws_def str_isspace_def bytes_isspace_def)

lemma describe_argv:
  "str_split (CHR '' '') (''git describe --exact-match --tags '' @ head)
     = [''git'', ''describe'', ''--exact-match'', ''--tags''] @ str_split (CHR '' '') head"
  by (simp add: str_split_def)

lemma get_head_argv:
  "get_head git =
     (case check_output_text git [''git'', ''log'', ''-n1'', ''--pretty=%H''] of
        Inr head \<Rightarrow>
          (case check_output_text git
                  ([''git'', ''describe'', ''--exact-match'', ''--tags''] @ str_split (CHR '' '') head) of
             Inr tag \<Rightarrow> Inr tag
           | Inl CalledProcessError \<Rightarrow> Inr head
           | Inl e \<Rightarrow> Inl e)
      | Inl CalledProcessError \<Rightarrow> Inr ''master''
      | Inl e \<Rightarrow> Inl e)"
  unfolding get_head_def log_argv describe_argv ..

lemma last_tag_argv:
  "str_split (CHR '' '') ''git describe --tags --abbrev=0''
     = [''git'', ''describe'', ''--tags'', ''--abbrev=0'']"
  by (simp add: str_split_def)

lemma toplevel_argv:
  "str_split (CHR '' '') ''git rev-parse --show-toplevel''
     = [''git'', ''rev-parse'', ''--show-toplevel'']"
  by (simp add: str_split_def)

lemma check_output_text_error: "git argv = Inl e \<Longrightarrow> check_output_text git argv = Inl e"
  by (simp add: check_output_text_def bind_exn_def)

lemmas text_eval = check_output_text_def bind_exn_def bytes_strip_def strip_with_def
  bytes_isspace_def decode_utf8_def

lemma hash_split:
  "str_split (CHR '' '') ''9fceb02d0ae598e95dc970b74767f19372d61af8''
     = [''9fceb02d0ae598e95dc970b74767f19372d61af8'']"
  by (simp add: str_split_def)

lemma tagged_log:
  "check_output_text git_tagged [''git'', ''log'', ''-n1'', ''--pretty=%H'']
     = Inr ''9fceb02d0ae598e95dc970b74767f19372d61af8''"
  by (simp add: text_eval git_tagged_def)

lemma tagged_describe:
  "check_output_text git_tagged
       [''git'', ''describe'', ''--exact-match'', ''--tags'',
        ''9fceb02d0ae598e95dc970b74767f19372d61af8'']
     = Inr ''v1.0''"
  by (simp add: text_eval git_tagged_def)

lemma untagged_log:
  "check_output_text git_untagged [''git'', ''log'', ''-n1'', ''--pretty=%H'']
     = Inr ''9fceb02d0ae598e95dc970b74767f19372d61af8''"
  by (simp add: text_eval git_untagged_def)

lemma untagged_describe:
  "git_untagged [''git'', ''describe'', ''--exact-match'', ''--tags'',
                 ''9fceb02d0ae598e95dc970b74767f19372d61af8'']
     = Inl CalledProcessError"
  by (simp add: git_untagged_def)

text \<open>
  C2: in \<open>head\<close> mode the revision is the tag that \<open>git describe --exact-match\<close> prints
  for the hash of the last commit; it is that hash when \<open>git describe\<close> exits with an
  error (the commit has no tag); and it is \<open>master\<close>, with no exception, when \<open>git log\<close>
  exits with an error.
\<close>

theorem get_head_revision:
  "(check_output_text git [''git'', ''log'', ''-n1'', ''--pretty=%H''] = Inr head \<and>
    check_output_text git
        ([''git'', ''describe'', ''--exact-match'', ''--tags''] @ str_split (CHR '' '') head)
      = Inr tag
      \<longrightarrow> get_linkcode_revision git ''head'' = Inr tag) \<and>
   (check_output_text git [''git'', ''log'', ''-n1'', ''--pretty=%H''] = Inr head \<and>
    git ([''git'', ''describe'', ''--exact-match'', ''--tags''] @ str_split (CHR '' '') head)
      = Inl CalledProcessError
      \<longrightarrow> get_linkcode_revision git ''head'' = Inr head) \<and>
   (git [''git'', ''log'', ''-n1'', ''--pretty=%H''] = Inl CalledProcessError
      \<longrightarrow> get_linkcode_revision git ''head'' = Inr ''master'')"
  by (simp add: get_linkcode_revision_def get_head_argv check_output_text_error)

theorem get_head_revision_witness:
  "get_linkcode_revision git_tagged ''head'' = Inr ''v1.0'' \<and>
   get_linkcode_revision git_untagged ''head''
     = Inr ''9fceb02d0ae598e95dc970b74767f19372d61af8'' \<and>
   get_linkcode_revision git_no_repository ''head'' = Inr ''master''"
proof -
  have a: "get_linkcode_revision git_tagged ''head'' = Inr ''v1.0''"
    using get_head_revision [of git_tagged "''9fceb02d0ae598e95dc970b74767f19372d61af8''" "''v1.0''"]
    by (simp add: hash_split tagged_log tagged_describe)
  have b: "get_linkcode_revision git_untagged ''head''
      = Inr ''9fceb02d0ae598e95dc970b74767f19372d61af8''"
    using get_head_revision [of git_untagged "''9fceb02d0ae598e95dc970b74767f19372d61af8''"]
    by (simp add: hash_split untagged_log untagged_describe)
  have c: "get_linkcode_revision git_no_repository ''head'' = Inr ''master''"
    using get_head_revision [of git_no_repository] by (simp add: git_no_repository_def)
  from a b c show ?thesis by simp
qed

text \<open>
  C6: in \<open>last_tag\<close> mode, when \<open>git describe --tags --abbrev=0\<close> exits with an error
  (no tag can be reached), the result is an \<open>ExtensionError\<close> and no revision is
  returned.
\<close>

theorem get_last_tag_no_tag:
  "git [''git'', ''describe'', ''--tags'', ''--abbrev=0''] = Inl CalledProcessError \<Longrightarrow>
     get_linkcode_revision git ''last_tag''
       = Inl (ExtensionError ''``sphinx-github-style``: no tags found on current branch'')
     \<and> (\<exists>e. get_last_tag git = Inl e \<and> is_ExtensionError e)"
  by (simp add: get_linkcode_revision_def get_last_tag_def last_tag_argv check_output_text_error
      is_ExtensionError_def)

theorem get_last_tag_no_tag_witness:
  "git_untagged [''git'', ''describe'', ''--tags'', ''--abbrev=0''] = Inl CalledProcessError \<and>
   get_linkcode_revision git_untagged ''last_tag''
     = Inl (ExtensionError ''``sphinx-github-style``: no tags found on current branch'')"
proof -
  have h: "git_untagged [''git'', ''describe'', ''--tags'', ''--abbrev=0''] = Inl CalledProcessError"
    by (simp add: git_untagged_def)
  from get_last_tag_no_tag [of git_untagged] h show ?thesis by simp
qed

text \<open>
  C7, as stated, asks for the error of the other configuration failures, an
  \<open>ExtensionError\<close>.  Outside a repository \<open>get_repo_dir\<close> raises a \<open>RuntimeError\<close>.
\<close>

theorem get_repo_dir_not_extension_error:
  "get_repo_dir git_no_repository
     = Inl (RuntimeError ''Unable to determine the repository directory'' CalledProcessError)
   \<and> \<not> is_ExtensionError
         (RuntimeError ''Unable to determine the repository directory'' CalledProcessError)"
  by (simp add: get_repo_dir_def toplevel_argv check_output_text_error git_no_repository_def
      is_ExtensionError_def)

text \<open>
  C7, amended: \<open>get_repo_dir\<close> returns the path that \<open>git rev-parse --show-toplevel\<close>
  prints, and when that call exits with an error it raises a \<open>RuntimeError\<close> whose cause
  is the \<open>CalledProcessError\<close>.
\<close>

theorem get_repo_dir_result:
  "(check_output_text git [''git'', ''rev-parse'', ''--show-toplevel''] = Inr text
      \<longrightarrow> get_repo_dir git = Inr (Path text)) \<and>
   (git [''git'', ''rev-parse'', ''--show-toplevel''] = Inl CalledProcessError
      \<longrightarrow> get_repo_dir git
            = Inl (RuntimeError ''Unable to determine the repository directory'' CalledProcessError))"
  by (simp add: get_repo_dir_def toplevel_argv check_output_text_error)

lemma toplevel_path: "Path ''/home/user/repo'' = [''/'', ''home'', ''user'', ''repo'']"
  by (simp add: Path_def str_split_def)

theorem get_repo_dir_result_witness:
  "get_repo_dir git_tagged = Inr [''/'', ''home'', ''user'', ''repo''] \<and>
   get_repo_dir git_no_repository
     = Inl (RuntimeError ''Unable to determine the repository directory'' CalledProcessError)"
proof -
  have t: "check_output_text git_tagged [''git'', ''rev-parse'', ''--show-toplevel'']
      = Inr ''/home/user/repo''"
    by (simp add: text_eval git_tagged_def)
  have a: "get_repo_dir git_tagged = Inr [''/'', ''home'', ''user'', ''repo'']"
    using get_repo_dir_result [of git_tagged "''/home/user/repo''"] t by (simp add: toplevel_path)
  have b: "get_repo_dir git_no_repository
     = Inl (RuntimeError ''Unable to determine the repository directory'' CalledProcessError)"
    using get_repo_dir_result [of git_no_repository] by (simp add: git_no_repository_def)
  from a b show ?thesis by simp
qed

section \<open>The template built by get_linkcode_url\<close>

text \<open>Occurrences of a text that does not contain the character \<open>c\<close> do not reach
  across a \<open>c\<close>, and \<open>strip\<close> adds none.\<close>

lemma prefix_before_sep:
  assumes "c \<notin> set p"
  shows "prefix p (a @ c # b) \<longleftrightarrow> prefix p a"
proof
  assume "prefix p (a @ c # b)"
  then consider "prefix p a" | us where "p = a @ us" "prefix us (c # b)"
    by (auto simp: prefix_append)
  then show "prefix p a"
  proof cases
    case 1 then show ?thesis .
  next
    case 2
    with assms have "us = []" by (cases us) auto
    with 2 show ?thesis by simp
  qed
next
  assume "prefix p a" then show "prefix p (a @ c # b)" by (rule prefix_prefix)
qed

lemma count_sub_sep:
  assumes "c \<notin> set p" "p \<noteq> []"
  shows "count_sub p (a @ c # b) = count_sub p a + count_sub p b"
proof (induction a)
  case Nil
  from assms have "\<not> prefix p (c # b)" by (cases p) auto
  with assms show ?case by simp
next
  case (Cons x a)
  have "prefix p (x # a @ c # b) \<longleftrightarrow> prefix p (x # a)"
    using prefix_before_sep [OF assms(1), of "x # a" b] by simp
  with Cons show ?case by simp
qed

lemma count_sub_append_ge: "p \<noteq> [] \<Longrightarrow> count_sub p a \<le> count_sub p (a @ b)"
proof (induction a)
  case Nil then show ?case by simp
next
  case (Cons x a)
  have "prefix p (x # a) \<Longrightarrow> prefix p (x # a @ b)"
    using prefix_prefix [of p "x # a" b] by simp
  with Cons show ?case by auto
qed

lemma count_sub_dropWhile_le: "count_sub p (dropWhile P s) \<le> count_sub p s"
  by (induction s) auto

lemma count_sub_strip_with:
  assumes "p \<noteq> []" "count_sub p s = 0"
  shows "count_sub p (strip_with P s) = 0"
proof -
  let ?t = "dropWhile P s"
  have t0: "count_sub p ?t = 0"
    using count_sub_dropWhile_le [of p P s] assms(2) by simp
  have "rev (dropWhile P (rev ?t)) @ rev (takeWhile P (rev ?t)) = ?t"
    by (metis rev_append rev_rev_ident takeWhile_dropWhile_id)
  then have "count_sub p (rev (dropWhile P (rev ?t))) \<le> count_sub p ?t"
    using count_sub_append_ge [OF assms(1), of "rev (dropWhile P (rev ?t))" "rev (takeWhile P (rev ?t))"]
    by simp
  with t0 show ?thesis by (simp add: strip_with_def)
qed

lemma count_sub_template:
  assumes "CHR ''/'' \<notin> set p" "p \<noteq> []" "count_sub p base = 0" "count_sub p r = 0"
  shows "count_sub p ((str_strip ''/'' base @ ''/blob/'' @ r @ ''/'') @ sfx)
           = count_sub p ''blob'' + count_sub p sfx"
proof -
  have b0: "count_sub p (str_strip ''/'' base) = 0"
    unfolding str_strip_def using assms(2,3) by (rule count_sub_strip_with)
  have "(str_strip ''/'' base @ ''/blob/'' @ r @ ''/'') @ sfx
          = str_strip ''/'' base @ CHR ''/'' # (''blob'' @ CHR ''/'' # (r @ CHR ''/'' # sfx))"
    by simp
  moreover have "count_sub p (str_strip ''/'' base @ CHR ''/'' # (''blob'' @ CHR ''/'' # (r @ CHR ''/'' # sfx)))
      = count_sub p (str_strip ''/'' base) + (count_sub p ''blob'' + (count_sub p r + count_sub p sfx))"
    by (simp only: count_sub_sep [OF assms(1,2)])
  ultimately show ?thesis
    using b0 assms(4) by simp
qed

lemma brace_free_template_prefix:
  assumes "brace_free base" and "brace_free r"
  shows "brace_free (str_strip ''/'' base @ ''/blob/'' @ r @ ''/'')"
proof -
  have "set (strip_with P s) \<subseteq> set s" for P and s :: string
    by (auto simp: strip_with_def dest!: set_dropWhileD)
  then have "set (str_strip ''/'' base) \<subseteq> set base"
    by (simp add: str_strip_def)
  with assms show ?thesis
    by (auto simp: brace_free_def)
qed

lemma get_linkcode_url_given:
  "linkcode_blob git blob context = Inr (Some r) \<Longrightarrow>
   get_linkcode_url git blob context (Some base)
     = Inr ((str_strip ''/'' base @ ''/blob/'' @ r @ ''/'') @ ''{filepath}#L{linestart}-L{linestop}'')"
  by (simp add: get_linkcode_url_def bind_exn_def)

text \<open>
  C4, amended: for a base URL and a revision \<open>r\<close> that contain none of the texts
  \<open>{filepath}\<close>, \<open>{linestart}\<close>, \<open>{linestop}\<close>, the template is the base URL without
  the slashes at both of its ends, then \<open>/blob/r/\<close>, then
  \<open>{filepath}#L{linestart}-L{linestop}\<close>; each of the three texts occurs in it exactly
  once, and \<open>/blob/r/\<close> occurs in it.  The revision \<open>r\<close> is what \<open>linkcode_blob\<close> determines
  from the blob argument or from \<open>github_version\<close>.
\<close>

theorem get_linkcode_url_template:
  assumes "linkcode_blob git blob context = Inr (Some r)"
    and "slot_free base" and "slot_free r"
  shows "\<exists>t. get_linkcode_url git blob context (Some base) = Inr t
           \<and> t = str_strip ''/'' base @ ''/blob/'' @ r @ ''/'' @ ''{filepath}#L{linestart}-L{linestop}''
           \<and> count_sub ''{filepath}'' t = 1
           \<and> count_sub ''{linestart}'' t = 1
           \<and> count_sub ''{linestop}'' t = 1
           \<and> sublist (''/blob/'' @ r @ ''/'') t"
proof -
  let ?t = "(str_strip ''/'' base @ ''/blob/'' @ r @ ''/'') @ ''{filepath}#L{linestart}-L{linestop}''"
  have url: "get_linkcode_url git blob context (Some base) = Inr ?t"
    using assms(1) by (rule get_linkcode_url_given)
  have c1: "count_sub ''{filepath}'' ?t = 1"
    using assms(2,3) by (subst count_sub_template) (simp_all add: slot_free_def)
  have c2: "count_sub ''{linestart}'' ?t = 1"
    using assms(2,3) by (subst count_sub_template) (simp_all add: slot_free_def)
  have c3: "count_sub ''{linestop}'' ?t = 1"
    using assms(2,3) by (subst count_sub_template) (simp_all add: slot_free_def)
  have "?t = str_strip ''/'' base @ (''/blob/'' @ r @ ''/'') @ ''{filepath}#L{linestart}-L{linestop}''"
    by simp
  then have s: "sublist (''/blob/'' @ r @ ''/'') ?t"
    unfolding sublist_def by blast
  have shape: "?t = str_strip ''/'' base @ ''/blob/'' @ r @ ''/'' @ ''{filepath}#L{linestart}-L{linestop}''"
    by simp
  from url c1 c2 c3 s shape show ?thesis by blast
qed

lemma github_strip:
  "str_strip ''/'' ''https://github.com/TDKorn/sphinx-github-style/''
     = ''https://github.com/TDKorn/sphinx-github-style''"
  by (simp add: str_strip_def strip_with_def)

theorem get_linkcode_url_template_witness:
  "get_linkcode_url git_no_repository (Some ''v1.2.0'') None
       (Some ''https://github.com/TDKorn/sphinx-github-style/'')
     = Inr ''https://github.com/TDKorn/sphinx-github-style/blob/v1.2.0/{filepath}#L{linestart}-L{linestop}''
   \<and> count_sub ''{filepath}''
         ''https://github.com/TDKorn/sphinx-github-style/blob/v1.2.0/{filepath}#L{linestart}-L{linestop}'' = 1
   \<and> count_sub ''{linestart}''
         ''https://github.com/TDKorn/sphinx-github-style/blob/v1.2.0/{filepath}#L{linestart}-L{linestop}'' = 1
   \<and> count_sub ''{linestop}''
         ''https://github.com/TDKorn/sphinx-github-style/blob/v1.2.0/{filepath}#L{linestart}-L{linestop}'' = 1"
proof -
  have b: "linkcode_blob git_no_repository (Some ''v1.2.0'') None = Inr (Some ''v1.2.0'')"
    by (simp add: linkcode_blob_def get_linkcode_revision_def bind_exn_def)
  have f1: "slot_free ''https://github.com/TDKorn/sphinx-github-style/''"
    by (simp add: slot_free_def)
  have f2: "slot_free ''v1.2.0''"
    by (simp add: slot_free_def)
  from get_linkcode_url_template [OF b f1 f2] show ?thesis
    by (simp add: github_strip)
qed

text \<open>
  C4, as stated, fails on two inputs.  The slashes in front of a base URL are removed
  as well, so for \<open>//github.com/u/r\<close> the template is not the one of the specification
  (\<open>spec_template\<close>); and a revision that contains \<open>{filepath}\<close> puts a second occurrence
  of that text into the template.
\<close>

theorem get_linkcode_url_not_spec_template:
  "slot_free ''//github.com/u/r''
   \<and> get_linkcode_url git_no_repository (Some ''main'') None (Some ''//github.com/u/r'')
       = Inr ''github.com/u/r/blob/main/{filepath}#L{linestart}-L{linestop}''
   \<and> spec_template ''//github.com/u/r'' ''main''
       = ''//github.com/u/r/blob/main/{filepath}#L{linestart}-L{linestop}''
   \<and> slot_free ''https://github.com/u/r''
   \<and> get_linkcode_url git_no_repository (Some ''{filepath}'') None (Some ''https://github.com/u/r'')
       = Inr ''https://github.com/u/r/blob/{filepath}/{filepath}#L{linestart}-L{linestop}''
   \<and> count_sub ''{filepath}''
         ''https://github.com/u/r/blob/{filepath}/{filepath}#L{linestart}-L{linestop}'' = 2"
  by (simp add: slot_free_def get_linkcode_url_def linkcode_blob_def get_linkcode_revision_def
      bind_exn_def str_strip_def strip_with_def spec_template_def)

text \<open>
  C5: with a base URL, a missing or empty blob and no context dictionary at all,
  \<open>context.get\<close> is evaluated on \<open>None\<close> and an \<open>AttributeError\<close> leaves the function, not
  the \<open>ExtensionError\<close> of the claim.  With a context dictionary that has no
  \<open>github_version\<close> the \<open>ExtensionError\<close> is raised.
\<close>

theorem get_linkcode_url_without_context:
  "get_linkcode_url git None None (Some url) = Inl (AttributeError ''get'')
   \<and> get_linkcode_url git (Some []) None (Some url) = Inl (AttributeError ''get'')
   \<and> get_linkcode_url git None (Some Map.empty) (Some url) = Inl missing_blob
   \<and> is_ExtensionError missing_blob"
  by (simp add: get_linkcode_url_def linkcode_blob_def context_get_def bind_exn_def
      missing_blob_def is_ExtensionError_def)

section \<open>The keywords of the method lexer\<close>

lemma set_dict_keys: "set (dict_keys kvs) = fst ` set kvs"
  by (induction kvs rule: dict_keys.induct) auto

lemma get_funcs_isfunction:
  "set (get_funcs insp obj) = {name. \<exists>v. (name, v) \<in> set (members insp obj) \<and> isfunction insp v}"
  by (auto simp: get_funcs_def set_dict_keys getmembers_def or_objects_def image_iff)

text \<open>
  C9: the predicate handed to \<open>getmembers\<close> is \<open>isfunction\<close> alone, so a member that
  is a bound method (a class method read from its class) is not collected.  For the
  package \<open>shop\<close> the keywords are \<open>load\<close> and \<open>save\<close>; the class method \<open>from_json\<close>
  of \<open>shop.models.Model\<close> is not among them.
\<close>

theorem get_pkg_lexer_misses_bound_method:
  "get_pkg_lexer example_inspection [''shop'' \<mapsto> example_pkg] \<lparr>EXTRA_KEYWORDS = {}\<rparr> ''shop''
     = Inr \<lparr>EXTRA_KEYWORDS = {''load'', ''save''}\<rparr>
   \<and> ismethod example_inspection py_bound_method
   \<and> ''from_json'' \<notin> {''load'', ''save''}"
  by (simp add: get_pkg_lexer_def get_pkg_funcs_def get_funcs_def getmembers_def or_objects_def
      example_inspection_def example_pkg_def insert_commute)

section \<open>The link of a symbol\<close>

text \<open>
  C10: in the domain \<open>py\<close>, with a non-empty \<open>module\<close> field and no \<open>fullname\<close> key,
  \<open>linkcode_resolve\<close> raises \<open>KeyError\<close>; in any other domain it returns \<open>None\<close>, whatever
  the dictionary holds.
\<close>

theorem linkcode_resolve_missing_fullname:
  "(info ''module'' = Some m \<and> m \<noteq> [] \<and> info ''fullname'' = None
      \<longrightarrow> linkcode_resolve env linkcode_url repo_dir (Some ''py'') info = Inl (KeyError ''fullname''))
   \<and> (d \<noteq> Some ''py'' \<longrightarrow> linkcode_resolve env linkcode_url repo_dir d info = Inr None)"
  by (simp add: linkcode_resolve_def)

theorem linkcode_resolve_missing_fullname_witness:
  "linkcode_resolve example_program example_template [''/'', ''home'', ''user'', ''repo'']
       (Some ''py'') [''module'' \<mapsto> ''pkg.mod''] = Inl (KeyError ''fullname'')
   \<and> linkcode_resolve example_program example_template [''/'', ''home'', ''user'', ''repo'']
       (Some ''c'') Map.empty = Inr None"
  using linkcode_resolve_missing_fullname [of "[''module'' \<mapsto> ''pkg.mod'']" "''pkg.mod''"
      example_program example_template "[''/'', ''home'', ''user'', ''repo'']" "Some ''c''"]
    linkcode_resolve_missing_fullname [of Map.empty "''pkg.mod''"
      example_program example_template "[''/'', ''home'', ''user'', ''repo'']" "Some ''c''"]
  by simp

lemma format_text_brace_free:
  "brace_free pre \<Longrightarrow>
     format_text kw (pre @ rest) = bind_exn (format_text kw rest) (\<lambda>r. Inr (pre @ r))"
proof (induction pre)
  case Nil
  show ?case by (simp add: bind_exn_def split: sum.splits)
next
  case (Cons c pre)
  then have "brace_free pre" "c \<noteq> CHR ''{''" "c \<noteq> CHR ''}''"
    by (auto simp: brace_free_def)
  with Cons.IH show ?case by (simp add: bind_exn_def split: sum.splits)
qed

lemma format_slots:
  "format_text (link_fields fp a b) ''{filepath}#L{linestart}-L{linestop}''
     = Inr (as_posix fp @ ''#L'' @ str_int a @ ''-L'' @ str_int b)"
  by (simp add: link_fields_def lookup_field_def bind_exn_def is_digit_def)

lemma str_format_template:
  "brace_free pre \<Longrightarrow>
     str_format (pre @ ''{filepath}#L{linestart}-L{linestop}'') (link_fields fp a b)
       = Inr (pre @ as_posix fp @ ''#L'' @ str_int a @ ''-L'' @ str_int b)"
  unfolding str_format_def by (simp only: format_text_brace_free format_slots) (simp add: bind_exn_def)

lemma example_modules:
  "sys_modules example_program ''pkg.mod'' = Some ''pkg.mod''"
  "sys_modules example_program ''not.loaded'' = None"
  by (simp_all add: example_program_def)

lemma example_walk:
  "resolve_parts example_program ''pkg.mod'' (str_split (CHR ''.'') ''ClassName.method_name'')
     = Inr (Some ''pkg.mod.ClassName.method_name'')"
  "resolve_parts example_program ''pkg.mod'' (str_split (CHR ''.'') ''ClassName.nope'') = Inr None"
  "resolve_parts example_program ''pkg.mod'' (str_split (CHR ''.'') ''len'') = Inr (Some ''pkg.mod.len'')"
  "resolve_parts example_program ''pkg.mod'' (str_split (CHR ''.'') ''Path'') = Inr (Some ''pkg.mod.Path'')"
  "resolve_parts example_program ''pkg.mod'' (str_split (CHR ''.'') ''made'') = Inr (Some ''pkg.mod.made'')"
  by (simp_all add: str_split_def example_program_def example_getattr_def)

lemma example_target: "accessor_target example_program obj = obj"
  by (simp add: accessor_target_def example_program_def)

lemma example_unwrap: "unwrap example_program obj = Inr obj"
  by (simp add: example_program_def)

lemma example_file:
  "getsourcefile example_program ''pkg.mod.ClassName.method_name'' = Inr (Some ''/home/user/repo/pkg/mod.py'')"
  "getsourcefile example_program ''pkg.mod.made'' = Inr (Some ''/home/user/repo/pkg/mod.py'')"
  "getsourcefile example_program ''pkg.mod.len'' = Inl (TypeError ''built-in function'')"
  "getsourcefile example_program ''pkg.mod.Path'' = Inr (Some ''/usr/lib/python3.11/pathlib.py'')"
  by (simp_all add: example_program_def example_getsourcefile_def)

lemma example_relative:
  "relative_to (Path ''/home/user/repo/pkg/mod.py'') [''/'', ''home'', ''user'', ''repo'']
     = Inr [''pkg'', ''mod.py'']"
  "relative_to (Path ''/usr/lib/python3.11/pathlib.py'') [''/'', ''home'', ''user'', ''repo'']
     = Inl (ValueError ''is not in the subpath of'')"
  by (simp_all add: relative_to_def Path_def str_split_def)

lemma example_lines:
  "getsourcelines example_program ''pkg.mod.ClassName.method_name'' = Inr (replicate 6 ''pass'', 10)"
  "getsourcelines example_program ''pkg.mod.made'' = Inl (OSError ''could not get source code'')"
  by (simp_all add: example_program_def example_getsourcelines_def)

lemma example_filepath:
  "source_filepath example_program [''/'', ''home'', ''user'', ''repo''] ''pkg.mod.ClassName.method_name''
     = Inr [''pkg'', ''mod.py'']"
  "source_filepath example_program [''/'', ''home'', ''user'', ''repo''] ''pkg.mod.made''
     = Inr [''pkg'', ''mod.py'']"
  "source_filepath example_program [''/'', ''home'', ''user'', ''repo''] ''pkg.mod.len''
     = Inl (TypeError ''built-in function'')"
  "source_filepath example_program [''/'', ''home'', ''user'', ''repo''] ''pkg.mod.Path''
     = Inl (ValueError ''is not in the subpath of'')"
  by (simp_all add: source_filepath_def bind_exn_def example_unwrap example_file example_relative)

lemma example_numbers: "str_int 10 = ''10''" "str_int 15 = ''15''"
  by (simp_all add: str_int_def str_nat.simps)

lemma example_as_posix: "as_posix [''pkg'', ''mod.py''] = ''pkg/mod.py''"
  by (simp add: as_posix_def)

text \<open>When the first \<open>try\<close> block fails: \<open>unwrap\<close> or \<open>getsourcefile\<close> raises,
  there is no source file, or the file is not under the repository.\<close>

lemma source_filepath_fails:
  "unwrap env obj = Inl e \<Longrightarrow> source_filepath env repo_dir obj = Inl e"
  "unwrap env obj = Inr u \<Longrightarrow> getsourcefile env u = Inl e
     \<Longrightarrow> source_filepath env repo_dir obj = Inl e"
  "unwrap env obj = Inr u \<Longrightarrow> getsourcefile env u = Inr None
     \<Longrightarrow> \<exists>e'. source_filepath env repo_dir obj = Inl e'"
  "unwrap env obj = Inr u \<Longrightarrow> getsourcefile env u = Inr (Some file)
     \<Longrightarrow> repo_dir \<noteq> [] \<Longrightarrow> \<not> prefix repo_dir (Path file)
     \<Longrightarrow> \<exists>e'. source_filepath env repo_dir obj = Inl e'"
  by (simp_all add: source_filepath_def bind_exn_def relative_to_def)

text \<open>
  C1: in the domain \<open>py\<close>, with a non-empty module name \<open>m\<close> and a dotted name \<open>f\<close>: when
  \<open>m\<close> is loaded, the walk along the segments of \<open>f\<close> ends in an object, the source file
  of that object (of its getter when it is a property, unwrapped) lies under \<open>repo_dir\<close>
  with the relative path \<open>rel\<close>, and its source is \<open>src\<close> starting at line \<open>L\<close>, then the
  result is the template with \<open>filepath\<close> replaced by \<open>rel\<close> written with forward
  slashes, \<open>linestart\<close> by \<open>L\<close> and \<open>linestop\<close> by \<open>L + length src - 1\<close>.  For a template
  \<open>pre{filepath}#L{linestart}-L{linestop}\<close> with no brace in \<open>pre\<close> that is
  \<open>pre\<close>, the path, \<open>#L\<close>, \<open>L\<close>, \<open>-L\<close> and the last line.
\<close>

theorem linkcode_resolve_link:
  assumes "info ''module'' = Some m" and "m \<noteq> []" and "info ''fullname'' = Some f"
    and "sys_modules env m = Some submod"
    and "resolve_parts env submod (str_split (CHR ''.'') f) = Inr (Some found)"
    and "unwrap env (accessor_target env found) = Inr u"
    and "getsourcefile env u = Inr (Some file)"
    and "relative_to (Path file) repo_dir = Inr rel"
    and "getsourcelines env (accessor_target env found) = Inr (src, L)"
  shows "(\<forall>url. str_format tmpl (link_fields rel L (L + int (length src) - 1)) = Inr url
            \<longrightarrow> linkcode_resolve env tmpl repo_dir (Some ''py'') info = Inr (Some url))
       \<and> (brace_free pre
            \<longrightarrow> linkcode_resolve env (pre @ ''{filepath}#L{linestart}-L{linestop}'') repo_dir
                  (Some ''py'') info
                = Inr (Some (pre @ as_posix rel @ ''#L'' @ str_int L @ ''-L''
                               @ str_int (L + int (length src) - 1))))"
proof -
  have fp: "source_filepath env repo_dir (accessor_target env found) = Inr rel"
    using assms(6,7,8) by (simp add: source_filepath_def bind_exn_def)
  have run: "linkcode_resolve env t repo_dir (Some ''py'') info
      = bind_exn (str_format t (link_fields rel L (L + int (length src) - 1)))
          (\<lambda>final_link. Inr (Some final_link))" for t
    using assms(1-5,9) fp by (simp add: linkcode_resolve_def)
  have a: "\<forall>url. str_format tmpl (link_fields rel L (L + int (length src) - 1)) = Inr url
            \<longrightarrow> linkcode_resolve env tmpl repo_dir (Some ''py'') info = Inr (Some url)"
    by (simp add: run bind_exn_def)
  have b: "brace_free pre
            \<longrightarrow> linkcode_resolve env (pre @ ''{filepath}#L{linestart}-L{linestop}'') repo_dir
                  (Some ''py'') info
                = Inr (Some (pre @ as_posix rel @ ''#L'' @ str_int L @ ''-L''
                               @ str_int (L + int (length src) - 1)))"
    by (simp only: run) (simp add: str_format_template bind_exn_def)
  from a b show ?thesis by (rule conjI)
qed

theorem linkcode_resolve_link_witness:
  "linkcode_resolve example_program example_template
       [''/'', ''home'', ''user'', ''repo''] (Some ''py'')
       [''module'' \<mapsto> ''pkg.mod'', ''fullname'' \<mapsto> ''ClassName.method_name'']
     = Inr (Some ''https://github.com/u/r/blob/v1.0/pkg/mod.py#L10-L15'')"
proof -
  have bf: "brace_free ''https://github.com/u/r/blob/v1.0/''"
    by (simp add: brace_free_def)
  have "linkcode_resolve example_program
       (''https://github.com/u/r/blob/v1.0/'' @ ''{filepath}#L{linestart}-L{linestop}'')
       [''/'', ''home'', ''user'', ''repo''] (Some ''py'')
       [''module'' \<mapsto> ''pkg.mod'', ''fullname'' \<mapsto> ''ClassName.method_name'']
     = Inr (Some (''https://github.com/u/r/blob/v1.0/'' @ as_posix [''pkg'', ''mod.py''] @ ''#L''
          @ str_int 10 @ ''-L'' @ str_int (10 + int (length (replicate 6 ''pass'')) - 1)))"
    using linkcode_resolve_link [of "[''module'' \<mapsto> ''pkg.mod'', ''fullname'' \<mapsto> ''ClassName.method_name'']"
        "''pkg.mod''" "''ClassName.method_name''" example_program "''pkg.mod''"
        "''pkg.mod.ClassName.method_name''" "''pkg.mod.ClassName.method_name''"
        "''/home/user/repo/pkg/mod.py''" "[''/'', ''home'', ''user'', ''repo'']" "[''pkg'', ''mod.py'']"
        "replicate 6 ''pass''" 10 "''https://github.com/u/r/blob/v1.0/''" "''https://github.com/u/r/blob/v1.0/''"]
      bf
    by (simp add: example_modules example_walk example_target example_unwrap example_file
        example_relative example_lines)
  then show ?thesis
    by (simp add: example_numbers example_as_posix example_template_def)
qed

text \<open>
  C3, as stated, fails: with both fields present and a symbol that resolves, a template
  with a replacement field that is none of the three (here a revision \<open>fix-{issue}\<close>)
  makes \<open>format\<close> raise \<open>KeyError\<close>, and the exception leaves \<open>linkcode_resolve\<close>.
\<close>

theorem linkcode_resolve_raises_on_template:
  "linkcode_resolve example_program
       ''https://github.com/u/r/blob/fix-{issue}/{filepath}#L{linestart}-L{linestop}''
       [''/'', ''home'', ''user'', ''repo''] (Some ''py'')
       [''module'' \<mapsto> ''pkg.mod'', ''fullname'' \<mapsto> ''ClassName.method_name'']
     = Inl (KeyError ''issue'')"
  by (simp add: linkcode_resolve_def example_modules example_walk example_target example_filepath
      example_lines str_format_def lookup_field_def link_fields_def is_digit_def bind_exn_def)

text \<open>
  C3, amended: with a non-empty \<open>module\<close> field and a \<open>fullname\<close> field,
  \<open>linkcode_resolve\<close> returns \<open>None\<close> when the module is not loaded, when a segment of the
  name raises \<open>AttributeError\<close>, when the lookup of the source file relative to the
  repository raises anything (no source file, a file outside the repository), and when
  \<open>getsourcelines\<close> raises anything.  It raises nothing at all when, besides, no
  attribute access raises an exception other than \<open>AttributeError\<close> and the template
  can be formatted with the three fields.
\<close>

theorem linkcode_resolve_no_link:
  assumes "info ''module'' = Some m" and "m \<noteq> []" and "info ''fullname'' = Some f"
  shows "(sys_modules env m = None
            \<longrightarrow> linkcode_resolve env tmpl repo_dir (Some ''py'') info = Inr None)
       \<and> (\<forall>submod. sys_modules env m = Some submod
              \<and> resolve_parts env submod (str_split (CHR ''.'') f) = Inr None
            \<longrightarrow> linkcode_resolve env tmpl repo_dir (Some ''py'') info = Inr None)
       \<and> (\<forall>submod found e. sys_modules env m = Some submod
              \<and> resolve_parts env submod (str_split (CHR ''.'') f) = Inr (Some found)
              \<and> (source_filepath env repo_dir (accessor_target env found) = Inl e
                   \<or> getsourcelines env (accessor_target env found) = Inl e)
            \<longrightarrow> linkcode_resolve env tmpl repo_dir (Some ''py'') info = Inr None)
       \<and> ((\<forall>submod e. sys_modules env m = Some submod
                \<longrightarrow> resolve_parts env submod (str_split (CHR ''.'') f) \<noteq> Inl e)
            \<and> (\<forall>fp a b. \<exists>url. str_format tmpl (link_fields fp a b) = Inr url)
            \<longrightarrow> (\<exists>r. linkcode_resolve env tmpl repo_dir (Some ''py'') info = Inr r))"
proof -
  let ?R = "linkcode_resolve env tmpl repo_dir (Some ''py'') info"
  let ?parts = "str_split (CHR ''.'') f"
  have not_loaded: "sys_modules env m = None \<longrightarrow> ?R = Inr None"
    using assms by (simp add: linkcode_resolve_def)
  have no_attribute: "\<forall>submod. sys_modules env m = Some submod
      \<and> resolve_parts env submod ?parts = Inr None \<longrightarrow> ?R = Inr None"
    using assms by (simp add: linkcode_resolve_def)
  have no_source: "\<forall>submod found e. sys_modules env m = Some submod
      \<and> resolve_parts env submod ?parts = Inr (Some found)
      \<and> (source_filepath env repo_dir (accessor_target env found) = Inl e
           \<or> getsourcelines env (accessor_target env found) = Inl e)
      \<longrightarrow> ?R = Inr None"
    using assms by (auto simp: linkcode_resolve_def Let_def split: sum.splits)
  have total: "(\<forall>submod e. sys_modules env m = Some submod
                \<longrightarrow> resolve_parts env submod ?parts \<noteq> Inl e)
            \<and> (\<forall>fp a b. \<exists>url. str_format tmpl (link_fields fp a b) = Inr url)
            \<longrightarrow> (\<exists>r. ?R = Inr r)"
  proof (intro impI, elim conjE)
    assume walk: "\<forall>submod e. sys_modules env m = Some submod
                \<longrightarrow> resolve_parts env submod ?parts \<noteq> Inl e"
      and fmt: "\<forall>fp a b. \<exists>url. str_format tmpl (link_fields fp a b) = Inr url"
    show "\<exists>r. ?R = Inr r"
    proof (cases "sys_modules env m")
      case None
      with not_loaded show ?thesis by simp
    next
      case (Some submod)
      with walk have w: "\<And>e. resolve_parts env submod ?parts \<noteq> Inl e" by simp
      show ?thesis
      proof (cases "resolve_parts env submod ?parts")
        case (Inl e)
        with w [of e] show ?thesis by simp
      next
        case (Inr found_opt)
        show ?thesis
        proof (cases found_opt)
          case None
          with Inr Some no_attribute show ?thesis by simp
        next
          case (Some found)
          note found = this
          show ?thesis
          proof (cases "source_filepath env repo_dir (accessor_target env found)")
            case (Inl e)
            with no_source \<open>sys_modules env m = Some submod\<close> Inr found show ?thesis by blast
          next
            case fp: (Inr filepath)
            show ?thesis
            proof (cases "getsourcelines env (accessor_target env found)")
              case (Inl e)
              with no_source \<open>sys_modules env m = Some submod\<close> Inr found show ?thesis by blast
            next
              case lines: (Inr sl)
              obtain source lineno where sl: "sl = (source, lineno)" by (cases sl)
              from fmt obtain url where
                "str_format tmpl (link_fields filepath lineno (lineno + int (length source) - 1)) = Inr url"
                by blast
              then have "?R = Inr (Some url)"
                using assms \<open>sys_modules env m = Some submod\<close> Inr found fp lines sl
                by (simp add: linkcode_resolve_def bind_exn_def Let_def)
              then show ?thesis by simp
            qed
          qed
        qed
      qed
    qed
  qed
  from not_loaded no_attribute no_source total show ?thesis by blast
qed

lemma example_template_formats:
  "\<exists>url. str_format example_template (link_fields fp a b) = Inr url"
proof -
  have "brace_free ''https://github.com/u/r/blob/v1.0/''"
    by (simp add: brace_free_def)
  then have "str_format (''https://github.com/u/r/blob/v1.0/'' @ ''{filepath}#L{linestart}-L{linestop}'')
      (link_fields fp a b)
    = Inr (''https://github.com/u/r/blob/v1.0/'' @ as_posix fp @ ''#L'' @ str_int a @ ''-L'' @ str_int b)"
    by (rule str_format_template)
  then show ?thesis by (simp add: example_template_def)
qed

theorem linkcode_resolve_no_link_witness:
  "linkcode_resolve example_program example_template [''/'', ''home'', ''user'', ''repo''] (Some ''py'')
       [''module'' \<mapsto> ''not.loaded'', ''fullname'' \<mapsto> ''f''] = Inr None
   \<and> linkcode_resolve example_program example_template [''/'', ''home'', ''user'', ''repo''] (Some ''py'')
       [''module'' \<mapsto> ''pkg.mod'', ''fullname'' \<mapsto> ''ClassName.nope''] = Inr None
   \<and> linkcode_resolve example_program example_template [''/'', ''home'', ''user'', ''repo''] (Some ''py'')
       [''module'' \<mapsto> ''pkg.mod'', ''fullname'' \<mapsto> ''len''] = Inr None
   \<and> linkcode_resolve example_program example_template [''/'', ''home'', ''user'', ''repo''] (Some ''py'')
       [''module'' \<mapsto> ''pkg.mod'', ''fullname'' \<mapsto> ''Path''] = Inr None
   \<and> linkcode_resolve example_program example_template [''/'', ''home'', ''user'', ''repo''] (Some ''py'')
       [''module'' \<mapsto> ''pkg.mod'', ''fullname'' \<mapsto> ''made''] = Inr None
   \<and> (\<exists>r. linkcode_resolve example_program example_template [''/'', ''home'', ''user'', ''repo'']
         (Some ''py'') [''module'' \<mapsto> ''pkg.mod'', ''fullname'' \<mapsto> ''ClassName.method_name'']
         = Inr r)"
proof -
  let ?root = "[''/'', ''home'', ''user'', ''repo'']"
  have a: "linkcode_resolve example_program example_template ?root (Some ''py'')
       [''module'' \<mapsto> ''not.loaded'', ''fullname'' \<mapsto> ''f''] = Inr None"
    using linkcode_resolve_no_link [of "[''module'' \<mapsto> ''not.loaded'', ''fullname'' \<mapsto> ''f'']"
        "''not.loaded''" "''f''" example_program example_template ?root]
    by (simp add: example_modules)
  have b: "linkcode_resolve example_program example_template ?root (Some ''py'')
       [''module'' \<mapsto> ''pkg.mod'', ''fullname'' \<mapsto> ''ClassName.nope''] = Inr None"
    using linkcode_resolve_no_link [of "[''module'' \<mapsto> ''pkg.mod'', ''fullname'' \<mapsto> ''ClassName.nope'']"
        "''pkg.mod''" "''ClassName.nope''" example_program example_template ?root]
    by (simp add: example_modules example_walk)
  have c: "linkcode_resolve example_program example_template ?root (Some ''py'')
       [''module'' \<mapsto> ''pkg.mod'', ''fullname'' \<mapsto> ''len''] = Inr None"
    using linkcode_resolve_no_link [of "[''module'' \<mapsto> ''pkg.mod'', ''fullname'' \<mapsto> ''len'']"
        "''pkg.mod''" "''len''" example_program example_template ?root]
    by (auto simp: example_modules example_walk example_target example_filepath)
  have d: "linkcode_resolve example_program example_template ?root (Some ''py'')
       [''module'' \<mapsto> ''pkg.mod'', ''fullname'' \<mapsto> ''Path''] = Inr None"
    using linkcode_resolve_no_link [of "[''module'' \<mapsto> ''pkg.mod'', ''fullname'' \<mapsto> ''Path'']"
        "''pkg.mod''" "''Path''" example_program example_template ?root]
    by (auto simp: example_modules example_walk example_target example_filepath)
  have e: "linkcode_resolve example_program example_template ?root (Some ''py'')
       [''module'' \<mapsto> ''pkg.mod'', ''fullname'' \<mapsto> ''made''] = Inr None"
    using linkcode_resolve_no_link [of "[''module'' \<mapsto> ''pkg.mod'', ''fullname'' \<mapsto> ''made'']"
        "''pkg.mod''" "''made''" example_program example_template ?root]
    by (auto simp: example_modules example_walk example_target example_filepath example_lines)
  have f: "\<exists>r. linkcode_resolve example_program example_template ?root
         (Some ''py'') [''module'' \<mapsto> ''pkg.mod'', ''fullname'' \<mapsto> ''ClassName.method_name'']
         = Inr r"
    using linkcode_resolve_no_link [of "[''module'' \<mapsto> ''pkg.mod'', ''fullname'' \<mapsto> ''ClassName.method_name'']"
        "''pkg.mod''" "''ClassName.method_name''" example_program example_template ?root]
    by (simp add: example_modules example_walk example_template_formats)
  from a b c d e f show ?thesis by blast
qed

section \<open>The links attached by doctree_read\<close>

lemma attached_links_same: "attached_links cs cs = []"
proof (induction cs)
  case Nil show ?case by simp
next
  case (Cons c cs) then show ?case by (cases c) simp_all
qed

lemma attached_links_kept:
  "attached_links (desc_signature attrs kids # cs) (desc_signature attrs kids # cs')
     = attached_links cs cs'"
  by simp

lemma attached_links_added:
  "attached_links (desc_signature attrs kids # cs)
       (desc_signature attrs (kids @ [reference uri]) # cs')
     = uri # attached_links cs cs'"
  by simp

lemma objnode_loop_links:
  "objnode_loop resolve_target d uris cs = (cs', e) \<Longrightarrow> links_ok uris cs cs'"
proof (induction cs arbitrary: uris cs' e)
  case Nil
  then show ?case by (simp add: links_ok_def)
next
  case (Cons c cs)
  obtain rest' e' where rest: "objnode_loop resolve_target d uris cs = (rest', e')"
    by (cases "objnode_loop resolve_target d uris cs")
  from Cons.IH [OF rest] have ok: "links_ok uris cs rest'" .
  show ?case
  proof (cases c)
    case not_signature
    with Cons.prems rest have "cs' = not_signature # rest'" by simp
    with ok not_signature show ?thesis by (simp add: links_ok_def)
  next
    case (desc_signature attrs kids)
    have kept: "links_ok uris (c # cs) (desc_signature attrs kids # rest')"
      using ok desc_signature by (simp add: links_ok_def)
    show ?thesis
    proof (cases "signode_info d attrs = []")
      case True
      with Cons.prems rest desc_signature have "cs' = desc_signature attrs kids # rest'" by simp
      with kept show ?thesis by simp
    next
      case info: False
      show ?thesis
      proof (cases "resolve_target d (signode_info d attrs)")
        case (Inl ex)
        with Cons.prems info desc_signature have "cs' = c # cs" by simp
        then show ?thesis by (simp add: links_ok_def attached_links_same)
      next
        case (Inr uri_opt)
        show ?thesis
        proof (cases uri_opt)
          case None
          with Cons.prems rest info Inr desc_signature
          have "cs' = desc_signature attrs kids # rest'" by simp
          with kept show ?thesis by simp
        next
          case (Some uri)
          show ?thesis
          proof (cases "uri = [] \<or> uri \<in> uris")
            case True
            with Cons.prems rest info Inr Some desc_signature
            have "cs' = desc_signature attrs kids # rest'" by (auto split: if_splits)
            with kept show ?thesis by simp
          next
            case False
            obtain new' e2 where new:
              "objnode_loop resolve_target d (insert uri uris) cs = (new', e2)"
              by (cases "objnode_loop resolve_target d (insert uri uris) cs")
            from Cons.IH [OF new] have ok2: "links_ok (insert uri uris) cs new'" .
            from Cons.prems new info Inr Some desc_signature False
            have "cs' = desc_signature attrs (kids @ [reference uri]) # new'" by simp
            with ok2 False desc_signature show ?thesis
              by (simp only: links_ok_def attached_links_added) auto
          qed
        qed
      qed
    qed
  qed
qed

lemma doctree_loop_links:
  "doctree_loop resolve_target ns = (ns', e) \<Longrightarrow>
     list_all2 (\<lambda>n n'. links_ok {} (children n) (children n')) ns ns'"
proof (induction ns arbitrary: ns' e)
  case Nil
  then show ?case by simp
next
  case (Cons n ns)
  obtain cs ex where loop: "objnode_loop resolve_target (domain n) {} (children n) = (cs, ex)"
    by (cases "objnode_loop resolve_target (domain n) {} (children n)")
  from objnode_loop_links [OF loop] have here: "links_ok {} (children n) cs" .
  show ?case
  proof (cases ex)
    case (Some x)
    with Cons.prems loop have "ns' = n\<lparr>children := cs\<rparr> # ns" by simp
    moreover have "list_all2 (\<lambda>n n'. links_ok {} (children n) (children n')) ns ns"
      by (simp add: list_all2_same links_ok_def attached_links_same)
    ultimately show ?thesis using here by simp
  next
    case None
    obtain rest' e' where rest: "doctree_loop resolve_target ns = (rest', e')"
      by (cases "doctree_loop resolve_target ns")
    with None Cons.prems loop have "ns' = n\<lparr>children := cs\<rparr> # rest'" by simp
    with here Cons.IH [OF rest] show ?thesis by simp
  qed
qed

text \<open>
  C8: after \<open>doctree_read\<close>, whether it returned or the resolver raised, the links
  attached to the signatures of one \<open>desc\<close> node are pairwise different (two
  signatures that resolve to the same URL get one link in total), and none of them is
  the empty URL; a resolver result \<open>None\<close> attaches nothing.
\<close>

theorem doctree_read_one_link_per_uri:
  "doctree_read linkcode_resolve_conf doctree = (doctree', e) \<Longrightarrow>
     length doctree' = length doctree
     \<and> (\<forall>i < length doctree.
           distinct (attached_links (children (doctree ! i)) (children (doctree' ! i)))
           \<and> [] \<notin> set (attached_links (children (doctree ! i)) (children (doctree' ! i))))"
proof -
  assume run: "doctree_read linkcode_resolve_conf doctree = (doctree', e)"
  have "list_all2 (\<lambda>n n'. links_ok {} (children n) (children n')) doctree doctree'"
  proof (cases linkcode_resolve_conf)
    case None
    with run have "doctree' = doctree" by (simp add: doctree_read_def)
    then show ?thesis by (simp add: list_all2_same links_ok_def attached_links_same)
  next
    case (Some resolve_target)
    with run have "doctree_loop resolve_target doctree = (doctree', e)"
      by (simp add: doctree_read_def)
    then show ?thesis by (rule doctree_loop_links)
  qed
  then show ?thesis
    by (simp add: list_all2_conv_all_nth links_ok_def)
qed

lemma example_doctree_read:
  "doctree_read (Some example_resolver) [\<lparr>domain = Some ''py'', children = example_objnode\<rparr>]
     = ([\<lparr>domain = Some ''py'',
          children =
            [desc_signature [(''module'', ''a'')] [reference ''a''],
             not_signature,
             desc_signature [(''module'', ''a'')] [other_element],
             desc_signature [] [],
             desc_signature [(''module'', ''b'')] [reference ''b'']]\<rparr>], None)"
  by (simp add: doctree_read_def example_objnode_def example_resolver_def signode_info_def
      domain_keys_def)

theorem doctree_read_one_link_per_uri_witness:
  "doctree_read (Some example_resolver) [\<lparr>domain = Some ''py'', children = example_objnode\<rparr>]
     = ([\<lparr>domain = Some ''py'',
          children =
            [desc_signature [(''module'', ''a'')] [reference ''a''],
             not_signature,
             desc_signature [(''module'', ''a'')] [other_element],
             desc_signature [] [],
             desc_signature [(''module'', ''b'')] [reference ''b'']]\<rparr>], None)
   \<and> distinct (attached_links example_objnode
         [desc_signature [(''module'', ''a'')] [reference ''a''],
          not_signature,
          desc_signature [(''module'', ''a'')] [other_element],
          desc_signature [] [],
          desc_signature [(''module'', ''b'')] [reference ''b'']])
   \<and> attached_links example_objnode
         [desc_signature [(''module'', ''a'')] [reference ''a''],
          not_signature,
          desc_signature [(''module'', ''a'')] [other_element],
          desc_signature [] [],
          desc_signature [(''module'', ''b'')] [reference ''b'']] = [''a'', ''b'']"
proof -
  have links: "attached_links example_objnode
         [desc_signature [(''module'', ''a'')] [reference ''a''],
          not_signature,
          desc_signature [(''module'', ''a'')] [other_element],
          desc_signature [] [],
          desc_signature [(''module'', ''b'')] [reference ''b'']] = [''a'', ''b'']"
    by (simp add: example_objnode_def)
  from doctree_read_one_link_per_uri [OF example_doctree_read]
  have "distinct (attached_links example_objnode
         [desc_signature [(''module'', ''a'')] [reference ''a''],
          not_signature,
          desc_signature [(''module'', ''a'')] [other_element],
          desc_signature [] [],
          desc_signature [(''module'', ''b'')] [reference ''b'']])"
    by simp
  with links example_doctree_read show ?thesis by simp
qed

end
